theory Spec2Isabelle
  imports Main
begin

section \<open>The Docker environment of mini-swe-agent\<close>

text \<open>
  A shallow embedding of \<^verbatim>\<open>src/minisweagent/environments/docker.py\<close>: the configuration
  dataclass, the session object with its nullable \<^verbatim>\<open>container_id\<close>, and the four
  operations \<^verbatim>\<open>_start_container\<close>, \<^verbatim>\<open>_attach_to_container\<close>, \<^verbatim>\<open>execute\<close> and
  \<^verbatim>\<open>cleanup\<close>.

  Everything outside the Python object is gathered in a record \<open>world\<close>: the host
  environment read by \<^verbatim>\<open>os.getenv\<close>, the value drawn by \<^verbatim>\<open>uuid.uuid4()\<close>, the behaviour
  of child processes (an oracle answering each process invocation), the list of
  process invocations made so far, and the records handed to the logger. Each
  operation takes the session and the world and returns a result (an error or a
  value) with the session and the world after the call.

  A \<open>char\<close> stands for one code point below 256; text beyond Latin-1 is outside the
  model. Decoding (\<^verbatim>\<open>encoding="utf-8", errors="replace"\<close>) happens before the model
  sees the text. The \<^verbatim>\<open>print\<close> of the configuration in the constructor is left out.
\<close>

subsection \<open>Text helpers of the Python library\<close>

text \<open>\<^verbatim>\<open>str.isspace\<close> on one code point below 256: TAB..CR, FS..US, space, NEL, NBSP.\<close>

definition isspace :: "char \<Rightarrow> bool" where
  "isspace c =
     (let n = (of_char c :: nat)
      in (9 \<le> n \<and> n \<le> 13) \<or> (28 \<le> n \<and> n \<le> 32) \<or> n = 133 \<or> n = 160)"

text \<open>\<^verbatim>\<open>s.strip()\<close>: leading and trailing whitespace removed.\<close>

definition strip :: "string \<Rightarrow> string" where
  "strip s = rev (dropWhile isspace (rev (dropWhile isspace s)))"

text \<open>\<^verbatim>\<open>s.lstrip('/')\<close>: leading slashes removed.\<close>

definition lstrip_slash :: "string \<Rightarrow> string" where
  "lstrip_slash s = dropWhile (\<lambda>c. c = CHR ''/'') s"

text \<open>
  \<^verbatim>\<open>s.split()\<close>: the maximal runs of non-whitespace, in order. \<open>split_acc cur s\<close> carries
  the run read so far.
\<close>

fun split_acc :: "string \<Rightarrow> string \<Rightarrow> string list" where
  "split_acc cur [] = (if cur = [] then [] else [cur])"
| "split_acc cur (c # cs) =
     (if isspace c
      then (if cur = [] then split_acc [] cs else cur # split_acc [] cs)
      else split_acc (cur @ [c]) cs)"

definition split :: "string \<Rightarrow> string list" where
  "split s = split_acc [] s"

text \<open>\<^verbatim>\<open>sep.join(xs)\<close>.\<close>

fun str_join :: "string \<Rightarrow> string list \<Rightarrow> string" where
  "str_join sep [] = []"
| "str_join sep [x] = x"
| "str_join sep (x # y # ys) = x @ sep @ str_join sep (y # ys)"

text \<open>
  \<^verbatim>\<open>shlex.quote\<close> and \<^verbatim>\<open>shlex.join\<close>: an empty argument becomes two apostrophes, an
  argument of safe characters only is kept, any other is put between apostrophes
  with each apostrophe inside written as \<^verbatim>\<open>'"'"'\<close>.
\<close>

definition shlex_safe :: "char \<Rightarrow> bool" where
  "shlex_safe c =
     (c \<in> set ''abcdefghijklmnopqrstuvwxyzABCDEFGHIJKLMNOPQRSTUVWXYZ0123456789_@%+=:,./-'')"

definition shlex_quote :: "string \<Rightarrow> string" where
  "shlex_quote s =
     (if s = [] then [CHR 0x27, CHR 0x27]
      else if list_all shlex_safe s then s
      else [CHR 0x27]
           @ concat (map (\<lambda>c. if c = CHR 0x27
                                then [CHR 0x27, CHR 0x22, CHR 0x27, CHR 0x22, CHR 0x27]
                                else [c]) s)
           @ [CHR 0x27])"

definition shlex_join :: "string list \<Rightarrow> string" where
  "shlex_join cmd = str_join '' '' (map shlex_quote cmd)"

subsection \<open>Errors and values\<close>

text \<open>
  The exceptions the module can raise. \<open>RuntimeError\<close> carries its message and the
  exception named after \<^verbatim>\<open>from\<close>, when there is one. \<open>CalledProcessError\<close> carries
  return code, command, captured stdout and captured stderr; \<open>TimeoutExpired\<close> the
  command and the timeout. \<open>ValueError\<close> is the failed unpacking of a list into two
  names, or a shell command line with a NUL character handed to \<^verbatim>\<open>Popen\<close>; \<open>OSError\<close>
  is a child process that could not be launched.
\<close>

datatype error =
    AssertionError string
  | CalledProcessError int "string list" string string
  | TimeoutExpired "string list" int
  | RuntimeError string "error option"
  | ValueError
  | OSError

text \<open>The values stored in the dictionary that \<^verbatim>\<open>execute\<close> returns.\<close>

datatype pyval = PyStr string | PyInt int

subsection \<open>The configuration and the session\<close>

text \<open>
  \<^verbatim>\<open>DockerEnvironmentConfig\<close>. The field \<^verbatim>\<open>image\<close> is \<open>image_name\<close> and
  the field \<^verbatim>\<open>container_id\<close> is \<open>config_container_id\<close> here (the session has a
  \<open>container_id\<close> of its own). \<^verbatim>\<open>env\<close> is a dictionary, kept as the list of its items
  in iteration order.
\<close>

record DockerEnvironmentConfig =
  image_name :: string
  cwd :: string
  env :: "(string \<times> string) list"
  forward_env :: "string list"
  timeout :: int
  executable :: string
  run_args :: "string list"
  container_timeout :: string
  pull_timeout :: int
  config_container_id :: "string option"

record DockerEnvironment =
  config :: DockerEnvironmentConfig
  container_id :: "string option"

subsection \<open>The world: host environment, child processes, logger\<close>

text \<open>
  How \<^verbatim>\<open>subprocess.run\<close> collects the streams: \<^verbatim>\<open>capture_output=True\<close> keeps stdout
  and stderr apart; \<^verbatim>\<open>stdout=PIPE, stderr=STDOUT\<close> sends both to the stdout pipe.
\<close>

datatype capture = Capture_Output | Stderr_To_Stdout

text \<open>
  One process invocation: a \<^verbatim>\<open>subprocess.run\<close> with its command, timeout, \<^verbatim>\<open>check\<close>
  flag and capture mode, or a \<^verbatim>\<open>subprocess.Popen(cmd, shell=True)\<close> with its shell
  command line.
\<close>

datatype invocation =
    Run "string list" int bool capture
  | Popen_Shell string

text \<open>
  What a child process does: it exits with a return code, the text captured on stdout
  and the text captured on stderr; or it is still running when the timeout fires; or
  it cannot be launched at all. \<^verbatim>\<open>subprocess.run\<close> waits for the answer;
  \<^verbatim>\<open>subprocess.Popen\<close> only learns whether the process was launched.
\<close>

datatype proc_result =
    Exited int string string
  | Timed_Out
  | Launch_Failed

datatype log_level = DEBUG | INFO | ERROR

record world =
  environ :: "string \<rightharpoonup> string"
  uuid_hex :: string
  respond :: "nat \<Rightarrow> invocation \<Rightarrow> proc_result"
  invoked :: "invocation list"
  logged :: "(log_level \<times> string) list"

record CompletedProcess =
  returncode :: int
  stdout :: string
  stderr :: string

definition logger :: "log_level \<Rightarrow> string \<Rightarrow> world \<Rightarrow> world" where
  "logger lvl msg w = w\<lparr>logged := logged w @ [(lvl, msg)]\<rparr>"

text \<open>
  \<^verbatim>\<open>subprocess.run(cmd, timeout=t, check=c, ...)\<close>: the invocation is recorded, the
  oracle says what the child does (it is asked with the number of earlier
  invocations, so that the same command can behave differently later on).
  With \<^verbatim>\<open>check=True\<close> a non-zero return code raises \<open>CalledProcessError\<close>.
\<close>

definition subprocess_run ::
  "string list \<Rightarrow> capture \<Rightarrow> int \<Rightarrow> bool \<Rightarrow> world \<Rightarrow> (error + CompletedProcess) \<times> world" where
  "subprocess_run cmd cap tmo chk w =
     (let call = Run cmd tmo chk cap;
          w' = w\<lparr>invoked := invoked w @ [call]\<rparr>
      in case respond w (length (invoked w)) call of
           Launch_Failed \<Rightarrow> (Inl OSError, w')
         | Timed_Out \<Rightarrow> (Inl (TimeoutExpired cmd tmo), w')
         | Exited rc out err \<Rightarrow>
             if chk \<and> rc \<noteq> 0 then (Inl (CalledProcessError rc cmd out err), w')
             else (Inr \<lparr>returncode = rc, stdout = out, stderr = err\<rparr>, w'))"

text \<open>
  \<^verbatim>\<open>subprocess.Popen(cmd, shell=True)\<close>: the invocation is recorded. A command line
  with a NUL character is refused with \<open>ValueError\<close>. Otherwise the host's shell is
  launched with the command line; when it cannot be launched the call raises
  \<open>OSError\<close>. Once launched, the shell is not waited for, and what it does (the other
  answers of the oracle) is never read back: a missing runtime executable shows inside
  the pipeline, not as an exception of \<^verbatim>\<open>Popen\<close>.
\<close>

definition subprocess_Popen_shell :: "string \<Rightarrow> world \<Rightarrow> (error + unit) \<times> world" where
  "subprocess_Popen_shell cmd w =
     (let call = Popen_Shell cmd;
          w' = w\<lparr>invoked := invoked w @ [call]\<rparr>
      in if CHR 0x00 \<in> set cmd then (Inl ValueError, w')
         else case respond w (length (invoked w)) call of
                Launch_Failed \<Rightarrow> (Inl OSError, w')
              | Exited rc out err \<Rightarrow> (Inr (), w')
              | Timed_Out \<Rightarrow> (Inr (), w'))"

subsection \<open>Starting a container\<close>

definition start_cmd :: "DockerEnvironmentConfig \<Rightarrow> string \<Rightarrow> string list" where
  "start_cmd cfg container_name =
     [executable cfg, ''run'', ''-d'', ''--name'', container_name, ''-w'', cwd cfg]
     @ run_args cfg
     @ [image_name cfg, ''sleep'', container_timeout cfg]"

definition start_container ::
  "DockerEnvironment \<Rightarrow> world \<Rightarrow> (error + unit) \<times> DockerEnvironment \<times> world" where
  "start_container self w =
     (let container_name = ''minisweagent-'' @ take 8 (uuid_hex w);
          cmd = start_cmd (config self) container_name;
          w1 = logger DEBUG (''Starting container with command: '' @ shlex_join cmd) w
      in case subprocess_run cmd Capture_Output (pull_timeout (config self)) True w1 of
           (Inl e, w2) \<Rightarrow> (Inl e, self, w2)
         | (Inr result, w2) \<Rightarrow>
             (Inr (),
              self\<lparr>container_id := Some (strip (stdout result))\<rparr>,
              logger INFO (''Started container '' @ container_name @ '' with ID ''
                           @ strip (stdout result)) w2))"

subsection \<open>Attaching to a running container\<close>

definition attach_to_container ::
  "string \<Rightarrow> DockerEnvironment \<Rightarrow> world \<Rightarrow> (error + unit) \<times> DockerEnvironment \<times> world" where
  "attach_to_container cid self w =
     (let cmd_check_running =
            [executable (config self), ''inspect'', ''-f'', ''{{.State.Running}}'', cid];
          w1 = logger DEBUG (''Checking status of container '' @ cid) w
      in case subprocess_run cmd_check_running Capture_Output 10 True w1 of
           (Inl (CalledProcessError rc c out err), w2) \<Rightarrow>
             (Inl (RuntimeError (''Container '' @ [CHR 0x27] @ cid @ [CHR 0x27]
                                 @ '' not found or docker error.'')
                                (Some (CalledProcessError rc c out err))),
              self,
              logger ERROR (''Failed to inspect container '' @ cid
                            @ ''. Does it exist? Error: '' @ err) w2)
         | (Inl (TimeoutExpired c t), w2) \<Rightarrow>
             (Inl (RuntimeError (''Timeout checking container '' @ cid @ ''.'') None),
              self,
              logger ERROR (''Timeout while inspecting container '' @ cid @ ''.'') w2)
         | (Inl e, w2) \<Rightarrow> (Inl e, self, w2)
         | (Inr result_check, w2) \<Rightarrow>
             if strip (stdout result_check) \<noteq> ''true''
             then (Inl (RuntimeError (''Container '' @ cid
                                      @ '' is not 'running'. Please start it first.'') None),
                   self,
                   logger ERROR (''Container '' @ cid @ '' is not in a 'running' state.'') w2)
             else
               (let cmd_get_info =
                      [executable (config self), ''inspect'', ''-f'', ''{{.Id}} {{.Name}}'', cid]
                in case subprocess_run cmd_get_info Capture_Output 10 True w2 of
                     (Inl e, w3) \<Rightarrow> (Inl e, self, w3)
                   | (Inr result_info, w3) \<Rightarrow>
                       (case split (strip (stdout result_info)) of
                          [full_id, name] \<Rightarrow>
                            (Inr (),
                             self\<lparr>container_id := Some full_id\<rparr>,
                             logger INFO (''Successfully attached to running container ''
                                          @ lstrip_slash name @ '' (ID: '' @ full_id @ '')'') w3)
                        | _ \<Rightarrow> (Inl ValueError, self, w3))))"

text \<open>
  The constructor: the identifier starts unset, then the session attaches when the
  configuration names a container and starts a new one otherwise. An error of either
  leaves the constructor with that error.
\<close>

definition init ::
  "DockerEnvironmentConfig \<Rightarrow> world \<Rightarrow> (error + unit) \<times> DockerEnvironment \<times> world" where
  "init cfg w =
     (let self = \<lparr>config = cfg, container_id = None\<rparr>
      in case config_container_id cfg of
           Some cid \<Rightarrow> attach_to_container cid self w
         | None \<Rightarrow> start_container self w)"

subsection \<open>Executing a command\<close>

text \<open>The two loops of \<^verbatim>\<open>execute\<close> that extend the command with \<^verbatim>\<open>-e\<close> entries.\<close>

definition extend_forward_env ::
  "(string \<rightharpoonup> string) \<Rightarrow> string list \<Rightarrow> string list \<Rightarrow> string list" where
  "extend_forward_env getenv keys cmd =
     fold (\<lambda>key cmd. case getenv key of
                       None \<Rightarrow> cmd
                     | Some v \<Rightarrow> cmd @ [''-e'', key @ ''='' @ v]) keys cmd"

definition extend_env :: "(string \<times> string) list \<Rightarrow> string list \<Rightarrow> string list" where
  "extend_env items cmd = fold (\<lambda>(key, v) cmd. cmd @ [''-e'', key @ ''='' @ v]) items cmd"

definition exec_cmd ::
  "DockerEnvironmentConfig \<Rightarrow> (string \<rightharpoonup> string) \<Rightarrow> string \<Rightarrow> string \<Rightarrow> string \<Rightarrow> string list" where
  "exec_cmd cfg getenv cid cwd' command =
     (let cmd = [executable cfg, ''exec'', ''-w'', cwd'];
          cmd = extend_forward_env getenv (forward_env cfg) cmd;
          cmd = extend_env (env cfg) cmd
      in cmd @ [cid, ''bash'', ''-lc'', command])"

text \<open>\<^verbatim>\<open>cwd or self.config.cwd\<close> and \<^verbatim>\<open>timeout or self.config.timeout\<close>.\<close>

definition cwd_or :: "string \<Rightarrow> string \<Rightarrow> string" where
  "cwd_or c dflt = (if c \<noteq> [] then c else dflt)"

definition timeout_or :: "int option \<Rightarrow> int \<Rightarrow> int" where
  "timeout_or t dflt = (case t of None \<Rightarrow> dflt | Some n \<Rightarrow> if n \<noteq> 0 then n else dflt)"

text \<open>
  \<^verbatim>\<open>execute(command, cwd="", *, timeout=None)\<close>. The assertion fails on an identifier
  that is \<^verbatim>\<open>None\<close> or the empty string.
\<close>

definition execute ::
  "string \<Rightarrow> string \<Rightarrow> int option \<Rightarrow> DockerEnvironment \<Rightarrow> world
     \<Rightarrow> (error + (string \<times> pyval) list) \<times> DockerEnvironment \<times> world" where
  "execute command cwd_arg timeout_arg self w =
     (let cwd' = cwd_or cwd_arg (cwd (config self))
      in case container_id self of
           None \<Rightarrow> (Inl (AssertionError ''Container not started''), self, w)
         | Some cid \<Rightarrow>
             if cid = [] then (Inl (AssertionError ''Container not started''), self, w)
             else
               (let cmd = exec_cmd (config self) (environ w) cid cwd' command
                in case subprocess_run cmd Stderr_To_Stdout
                          (timeout_or timeout_arg (timeout (config self))) False w of
                     (Inl e, w') \<Rightarrow> (Inl e, self, w')
                   | (Inr result, w') \<Rightarrow>
                       (Inr [(''output'', PyStr (stdout result)),
                             (''returncode'', PyInt (returncode result))],
                        self, w')))"

subsection \<open>Cleaning up\<close>

definition cleanup_cmd :: "DockerEnvironmentConfig \<Rightarrow> string \<Rightarrow> string" where
  "cleanup_cmd cfg cid =
     ''(timeout 60 '' @ executable cfg @ '' stop '' @ cid @ '' || ''
     @ executable cfg @ '' rm -f '' @ cid @ '') >/dev/null 2>&1 &''"

text \<open>
  \<^verbatim>\<open>cleanup()\<close>: nothing is done when the identifier is \<^verbatim>\<open>None\<close>; otherwise the
  pipeline is handed to \<^verbatim>\<open>Popen\<close>, with no handler around the call.
\<close>

definition cleanup ::
  "DockerEnvironment \<Rightarrow> world \<Rightarrow> (error + unit) \<times> DockerEnvironment \<times> world" where
  "cleanup self w =
     (case container_id self of
        None \<Rightarrow> (Inr (), self, w)
      | Some cid \<Rightarrow>
          (case subprocess_Popen_shell (cleanup_cmd (config self) cid) w of
             (Inl e, w') \<Rightarrow> (Inl e, self, w')
           | (Inr launched, w') \<Rightarrow> (Inr (), self, w')))"

subsection \<open>Sequences of operations\<close>

text \<open>
  The operations a session can undergo, and a run of them from a session and a world.
  An error raised by one operation is caught by the caller, who goes on with the next:
  only the session and the world are carried along.
\<close>

datatype operation =
    Start_Container
  | Attach_To_Container string
  | Execute string string "int option"
  | Cleanup

fun perform :: "operation \<Rightarrow> DockerEnvironment \<times> world \<Rightarrow> DockerEnvironment \<times> world" where
  "perform Start_Container (self, w) = snd (start_container self w)"
| "perform (Attach_To_Container cid) (self, w) = snd (attach_to_container cid self w)"
| "perform (Execute command cwd_arg timeout_arg) (self, w) =
     snd (execute command cwd_arg timeout_arg self w)"
| "perform Cleanup (self, w) = snd (cleanup self w)"

definition perform_all ::
  "operation list \<Rightarrow> DockerEnvironment \<times> world \<Rightarrow> DockerEnvironment \<times> world" where
  "perform_all ops sw = fold perform ops sw"

text \<open>\<open>n\<close> calls of \<^verbatim>\<open>cleanup\<close> in a row, with the result of each.\<close>

fun cleanup_times ::
  "nat \<Rightarrow> DockerEnvironment \<Rightarrow> world \<Rightarrow> (error + unit) list \<times> DockerEnvironment \<times> world" where
  "cleanup_times 0 self w = ([], self, w)"
| "cleanup_times (Suc n) self w =
     (case cleanup self w of
        (r, self', w') \<Rightarrow>
          (case cleanup_times n self' w' of (rs, self'', w'') \<Rightarrow> (r # rs, self'', w'')))"

subsection \<open>What the specification says of the injected environment\<close>

text \<open>
  The specification's description of the \<^verbatim>\<open>-e\<close> options, to be compared with the two
  loops of \<^verbatim>\<open>execute\<close>: the forwarded names that are set on the host, each with its
  value, in the order of \<^verbatim>\<open>forward_env\<close>; one \<^verbatim>\<open>name=value\<close> entry per item; one
  \<^verbatim>\<open>-e\<close> option per entry.
\<close>

definition forwarded_items ::
  "(string \<rightharpoonup> string) \<Rightarrow> string list \<Rightarrow> (string \<times> string) list" where
  "forwarded_items getenv keys =
     List.map_filter (\<lambda>key. map_option (Pair key) (getenv key)) keys"

definition env_entry :: "string \<times> string \<Rightarrow> string" where
  "env_entry item = fst item @ ''='' @ snd item"

definition env_options :: "(string \<times> string) list \<Rightarrow> string list" where
  "env_options items = concat (map (\<lambda>item. [''-e'', env_entry item]) items)"

text \<open>
  Modelled from the spec: the container runtime is not part of the repository. The
  specification says of its reading of repeated \<^verbatim>\<open>-e\<close> entries "last-write-wins by
  iteration order"; an entry is split at its first \<^verbatim>\<open>=\<close> into name and value.
\<close>

definition parse_entry :: "string \<Rightarrow> string \<times> string" where
  "parse_entry s =
     (takeWhile (\<lambda>c. c \<noteq> CHR ''='') s, drop 1 (dropWhile (\<lambda>c. c \<noteq> CHR ''='') s))"

definition container_env :: "string list \<Rightarrow> (string \<rightharpoonup> string)" where
  "container_env entries = map_of (rev (map parse_entry entries))"

subsection \<open>A concrete configuration, session and world\<close>

definition example_config :: DockerEnvironmentConfig where
  "example_config =
     \<lparr>image_name = ''alpine'', cwd = ''/tmp'', env = [(''A'', ''1'')],
      forward_env = [''A'', ''B'', ''C''], timeout = 30, executable = ''docker'',
      run_args = [''--rm''], container_timeout = ''2h'', pull_timeout = 120,
      config_container_id = None\<rparr>"

definition example_session :: "string option \<Rightarrow> DockerEnvironment" where
  "example_session cid = \<lparr>config = example_config, container_id = cid\<rparr>"

definition example_world :: "(nat \<Rightarrow> invocation \<Rightarrow> proc_result) \<Rightarrow> world" where
  "example_world r =
     \<lparr>environ = [''A'' \<mapsto> ''0'', ''B'' \<mapsto> ''''],
      uuid_hex = ''0123456789abcdef0123456789abcdef'',
      respond = r, invoked = [], logged = []\<rparr>"

section \<open>Properties\<close>

subsection \<open>Child processes and the logger\<close>

lemma snd_subprocess_run:
  "snd (subprocess_run cmd cap t chk w) = w\<lparr>invoked := invoked w @ [Run cmd t chk cap]\<rparr>"
  by (simp add: subprocess_run_def Let_def split: proc_result.splits)

lemma subprocess_run_invoked:
  "invoked (snd (subprocess_run cmd cap t chk w)) = invoked w @ [Run cmd t chk cap]"
  by (simp add: snd_subprocess_run)

lemma subprocess_run_logger [simp]:
  "subprocess_run cmd cap t chk (logger lvl msg w) =
     (fst (subprocess_run cmd cap t chk w), logger lvl msg (snd (subprocess_run cmd cap t chk w)))"
  by (auto simp: subprocess_run_def logger_def Let_def split: proc_result.splits)

lemma invoked_logger [simp]: "invoked (logger lvl msg w) = invoked w"
  by (simp add: logger_def)

lemma subprocess_run_Exited:
  "respond w (length (invoked w)) (Run cmd t chk cap) = Exited rc out err \<Longrightarrow>
   fst (subprocess_run cmd cap t chk w) =
     (if chk \<and> rc \<noteq> 0 then Inl (CalledProcessError rc cmd out err)
      else Inr \<lparr>returncode = rc, stdout = out, stderr = err\<rparr>)"
  by (simp add: subprocess_run_def Let_def)

lemma subprocess_run_Timed_Out:
  "respond w (length (invoked w)) (Run cmd t chk cap) = Timed_Out \<Longrightarrow>
   fst (subprocess_run cmd cap t chk w) = Inl (TimeoutExpired cmd t)"
  by (simp add: subprocess_run_def Let_def)

lemma subprocess_run_unchecked:
  "fst (subprocess_run cmd cap t False w) = Inr r \<Longrightarrow>
   \<exists>rc out err. respond w (length (invoked w)) (Run cmd t False cap) = Exited rc out err
      \<and> r = \<lparr>returncode = rc, stdout = out, stderr = err\<rparr>"
  by (auto simp: subprocess_run_def Let_def split: proc_result.splits)

lemma execute_session [simp]: "fst (snd (execute command cwd_arg timeout_arg self w)) = self"
  by (simp add: execute_def Let_def split_beta split: option.splits sum.splits)

lemma execute_invoked:
  "container_id self = Some cid \<Longrightarrow> cid \<noteq> [] \<Longrightarrow>
   invoked (snd (snd (execute command cwd_arg timeout_arg self w))) =
     invoked w @ [Run (exec_cmd (config self) (environ w) cid (cwd_or cwd_arg (cwd (config self))) command)
                      (timeout_or timeout_arg (timeout (config self))) False Stderr_To_Stdout]"
  using subprocess_run_invoked[of "exec_cmd (config self) (environ w) cid (cwd_or cwd_arg (cwd (config self))) command" Stderr_To_Stdout "timeout_or timeout_arg (timeout (config self))" False w]
  by (simp add: execute_def Let_def split_beta split: sum.splits)

lemma execute_Exited:
  "container_id self = Some cid \<Longrightarrow> cid \<noteq> [] \<Longrightarrow>
   respond w (length (invoked w))
     (Run (exec_cmd (config self) (environ w) cid (cwd_or cwd_arg (cwd (config self))) command)
          (timeout_or timeout_arg (timeout (config self))) False Stderr_To_Stdout) = Exited rc out err \<Longrightarrow>
   fst (execute command cwd_arg timeout_arg self w) =
     Inr [(''output'', PyStr out), (''returncode'', PyInt rc)]"
  using subprocess_run_Exited[of w "exec_cmd (config self) (environ w) cid (cwd_or cwd_arg (cwd (config self))) command" "timeout_or timeout_arg (timeout (config self))" False Stderr_To_Stdout rc out err]
  by (simp add: execute_def Let_def split_beta split: sum.splits)

lemma execute_Inr:
  "fst (execute command cwd_arg timeout_arg self w) = Inr d \<Longrightarrow>
   \<exists>rc out. d = [(''output'', PyStr out), (''returncode'', PyInt rc)]"
  by (auto simp: execute_def Let_def split_beta split: option.splits if_splits sum.splits)

lemma execute_Timed_Out:
  "container_id self = Some cid \<Longrightarrow> cid \<noteq> [] \<Longrightarrow>
   respond w (length (invoked w))
     (Run (exec_cmd (config self) (environ w) cid (cwd_or cwd_arg (cwd (config self))) command)
          (timeout_or timeout_arg (timeout (config self))) False Stderr_To_Stdout) = Timed_Out \<Longrightarrow>
   fst (execute command cwd_arg timeout_arg self w) =
     Inl (TimeoutExpired (exec_cmd (config self) (environ w) cid (cwd_or cwd_arg (cwd (config self))) command)
            (timeout_or timeout_arg (timeout (config self))))"
  using subprocess_run_Timed_Out[of w "exec_cmd (config self) (environ w) cid (cwd_or cwd_arg (cwd (config self))) command" "timeout_or timeout_arg (timeout (config self))" False Stderr_To_Stdout]
  by (simp add: execute_def Let_def split_beta split: sum.splits)

lemma start_container_invoked:
  "invoked (snd (snd (start_container self w))) =
     invoked w @ [Run (start_cmd (config self) (''minisweagent-'' @ take 8 (uuid_hex w)))
                      (pull_timeout (config self)) True Capture_Output]"
  using subprocess_run_invoked[of "start_cmd (config self) (''minisweagent-'' @ take 8 (uuid_hex w))" Capture_Output "pull_timeout (config self)" True w]
  by (simp add: start_container_def Let_def split_beta split: sum.splits)

lemma start_container_Exited:
  "respond w (length (invoked w))
     (Run (start_cmd (config self) (''minisweagent-'' @ take 8 (uuid_hex w)))
          (pull_timeout (config self)) True Capture_Output) = Exited rc out err \<Longrightarrow>
   fst (start_container self w) =
      (if rc \<noteq> 0 then Inl (CalledProcessError rc (start_cmd (config self) (''minisweagent-'' @ take 8 (uuid_hex w))) out err) else Inr ())
   \<and> fst (snd (start_container self w)) = (if rc \<noteq> 0 then self else self\<lparr>container_id := Some (strip out)\<rparr>)"
  using subprocess_run_Exited[of w "start_cmd (config self) (''minisweagent-'' @ take 8 (uuid_hex w))" "pull_timeout (config self)" True Capture_Output rc out err]
  by (simp add: start_container_def Let_def split_beta split: sum.splits)

lemma start_container_Timed_Out:
  "respond w (length (invoked w))
     (Run (start_cmd (config self) (''minisweagent-'' @ take 8 (uuid_hex w)))
          (pull_timeout (config self)) True Capture_Output) = Timed_Out \<Longrightarrow>
   fst (start_container self w) =
      Inl (TimeoutExpired (start_cmd (config self) (''minisweagent-'' @ take 8 (uuid_hex w))) (pull_timeout (config self)))"
  using subprocess_run_Timed_Out[of w "start_cmd (config self) (''minisweagent-'' @ take 8 (uuid_hex w))" "pull_timeout (config self)" True Capture_Output]
  by (simp add: start_container_def Let_def split_beta split: sum.splits)

subsection \<open>Attach, start and cleanup\<close>

lemma logged_logger [simp]: "logged (logger lvl msg w) = logged w @ [(lvl, msg)]"
  by (simp add: logger_def)

lemma logged_subprocess_run [simp]:
  "logged (snd (subprocess_run cmd cap t chk w)) = logged w"
  by (simp add: snd_subprocess_run)

lemma attach_failure_session:
  "fst (attach_to_container cid self w) = Inl e \<Longrightarrow> fst (snd (attach_to_container cid self w)) = self"
  by (auto simp: attach_to_container_def Let_def split_beta
           split: sum.splits error.splits list.splits if_splits)

lemma attach_keeps_set:
  "container_id self \<noteq> None \<Longrightarrow> container_id (fst (snd (attach_to_container cid self w))) \<noteq> None"
  by (auto simp: attach_to_container_def Let_def split_beta
           split: sum.splits error.splits list.splits if_splits)

lemma attach_not_found:
  assumes "respond w (length (invoked w))
             (Run [executable (config self), ''inspect'', ''-f'', ''{{.State.Running}}'', cid]
                  10 True Capture_Output) = Exited rc out err"
    and "rc \<noteq> 0"
  shows "fst (attach_to_container cid self w) =
           Inl (RuntimeError (''Container '' @ [CHR 0x27] @ cid @ [CHR 0x27] @ '' not found or docker error.'')
                  (Some (CalledProcessError rc
                     [executable (config self), ''inspect'', ''-f'', ''{{.State.Running}}'', cid] out err)))"
    and "logged (snd (snd (attach_to_container cid self w))) =
           logged w @ [(DEBUG, ''Checking status of container '' @ cid),
                       (ERROR, ''Failed to inspect container '' @ cid @ ''. Does it exist? Error: '' @ err)]"
  using subprocess_run_Exited[OF assms(1)] assms(2)
  by (simp_all add: attach_to_container_def Let_def split_beta)

lemma attach_timed_out:
  assumes "respond w (length (invoked w))
             (Run [executable (config self), ''inspect'', ''-f'', ''{{.State.Running}}'', cid]
                  10 True Capture_Output) = Timed_Out"
  shows "fst (attach_to_container cid self w) =
           Inl (RuntimeError (''Timeout checking container '' @ cid @ ''.'') None)"
  using subprocess_run_Timed_Out[OF assms(1)]
  by (simp_all add: attach_to_container_def Let_def split_beta)

lemma attach_not_running:
  assumes "respond w (length (invoked w))
             (Run [executable (config self), ''inspect'', ''-f'', ''{{.State.Running}}'', cid]
                  10 True Capture_Output) = Exited 0 out err"
    and "strip out \<noteq> ''true''"
  shows "fst (attach_to_container cid self w) =
           Inl (RuntimeError (''Container '' @ cid @ '' is not 'running'. Please start it first.'') None)"
  using subprocess_run_Exited[OF assms(1)] assms(2)
  by (simp_all add: attach_to_container_def Let_def split_beta)

lemma start_keeps_set:
  "container_id (fst (snd (start_container self w))) \<noteq> None \<or> fst (snd (start_container self w)) = self"
  by (auto simp: start_container_def Let_def split_beta split: sum.splits)

lemma snd_subprocess_Popen_shell:
  "snd (subprocess_Popen_shell cmd w) = w\<lparr>invoked := invoked w @ [Popen_Shell cmd]\<rparr>"
  by (simp add: subprocess_Popen_shell_def Let_def split: proc_result.splits)

lemma fst_subprocess_Popen_shell:
  "fst (subprocess_Popen_shell cmd w) =
     (if CHR 0x00 \<in> set cmd then Inl ValueError
      else if respond w (length (invoked w)) (Popen_Shell cmd) = Launch_Failed then Inl OSError
      else Inr ())"
  by (simp add: subprocess_Popen_shell_def Let_def split: proc_result.splits)

lemma cleanup_session [simp]: "fst (snd (cleanup self w)) = self"
  by (simp add: cleanup_def split_beta split: option.splits sum.splits)

subsection \<open>Runs of operations and the injected environment\<close>

lemma extend_forward_env_eq:
  "extend_forward_env getenv keys cmd = cmd @ env_options (forwarded_items getenv keys)"
  unfolding extend_forward_env_def env_options_def forwarded_items_def env_entry_def
  by (induction keys arbitrary: cmd) (auto simp: List.map_filter_simps split: option.splits)

lemma extend_env_eq: "extend_env items cmd = cmd @ env_options items"
  unfolding extend_env_def env_options_def env_entry_def
  by (induction items arbitrary: cmd) (auto split: prod.splits)

lemma exec_cmd_eq:
  "exec_cmd cfg getenv cid c command =
     [executable cfg, ''exec'', ''-w'', c]
     @ env_options (forwarded_items getenv (forward_env cfg))
     @ env_options (env cfg)
     @ [cid, ''bash'', ''-lc'', command]"
  by (simp add: exec_cmd_def extend_forward_env_eq extend_env_eq)

lemma parse_entry_env_entry:
  "CHR ''='' \<notin> set k \<Longrightarrow> parse_entry (env_entry (k, v)) = (k, v)"
  by (simp add: parse_entry_def env_entry_def takeWhile_append dropWhile_append3 takeWhile_eq_all_conv dropWhile_eq_Nil_conv  dropWhile_append)

lemma parse_map_env_entry:
  "\<forall>key \<in> fst ` set items. CHR ''='' \<notin> set key \<Longrightarrow> map parse_entry (map env_entry items) = items"
  by (induction items) (auto simp: parse_entry_env_entry)

lemma container_env_override:
  assumes "distinct (map fst items)" and "\<forall>key \<in> fst ` set items. CHR ''='' \<notin> set key"
    and "(k, v) \<in> set items"
  shows "container_env (map env_entry (fwd @ items)) k = Some v"
proof -
  have "map_of (rev items) k = Some v"
    using assms(1,3) by (intro map_of_is_SomeI) (simp_all add: rev_map[symmetric])
  then show ?thesis
    using assms(2) by (simp add: container_env_def rev_map[symmetric] parse_map_env_entry map_add_Some_iff flip: map_map)
qed

lemma perform_keeps_set:
  "container_id (fst sw) \<noteq> None \<Longrightarrow> container_id (fst (perform op sw)) \<noteq> None"
proof (cases sw)
  case (Pair self w)
  assume set: "container_id (fst sw) \<noteq> None"
  show ?thesis
  proof (cases op)
    case Start_Container
    with Pair set start_keeps_set[of self w] show ?thesis by auto
  next
    case (Attach_To_Container cid)
    with Pair set attach_keeps_set[of self cid w] show ?thesis by simp
  next
    case (Execute command cwd_arg timeout_arg)
    with Pair set show ?thesis by simp
  next
    case Cleanup
    with Pair set show ?thesis by simp
  qed
qed

lemma perform_all_keeps_set:
  "container_id (fst sw) \<noteq> None \<Longrightarrow> container_id (fst (perform_all ops sw)) \<noteq> None"
  unfolding perform_all_def
proof (induction ops arbitrary: sw)
  case Nil
  then show ?case by simp
next
  case (Cons op ops)
  from Cons.prems have "container_id (fst (perform op sw)) \<noteq> None"
    by (rule perform_keeps_set)
  then have "container_id (fst (fold perform ops (perform op sw))) \<noteq> None"
    by (rule Cons.IH)
  then show ?case by simp
qed

lemma execute_passes_precondition:
  "container_id self = Some cid \<Longrightarrow> cid \<noteq> [] \<Longrightarrow>
   fst (execute command cwd_arg timeout_arg self w) \<noteq> Inl (AssertionError msg)"
  by (auto simp: execute_def Let_def split_beta subprocess_run_def
           split: sum.splits proc_result.splits)

lemma cleanup_unset: "container_id self = None \<Longrightarrow> cleanup self w = (Inr (), self, w)"
  by (simp add: cleanup_def)

lemma cleanup_set:
  "container_id self = Some cid \<Longrightarrow>
   cleanup self w =
     (fst (subprocess_Popen_shell (cleanup_cmd (config self) cid) w), self,
      w\<lparr>invoked := invoked w @ [Popen_Shell (cleanup_cmd (config self) cid)]\<rparr>)"
  by (simp add: cleanup_def split_beta snd_subprocess_Popen_shell split: sum.splits)

lemma cleanup_world:
  "snd (snd (cleanup self w)) =
     (case container_id self of
        None \<Rightarrow> w
      | Some cid \<Rightarrow> w\<lparr>invoked := invoked w @ [Popen_Shell (cleanup_cmd (config self) cid)]\<rparr>)"
  by (simp add: cleanup_unset cleanup_set split: option.splits)

lemma cleanup_launched:
  "container_id self = Some cid \<Longrightarrow> CHR 0x00 \<notin> set (cleanup_cmd (config self) cid) \<Longrightarrow>
   respond w (length (invoked w)) (Popen_Shell (cleanup_cmd (config self) cid)) \<noteq> Launch_Failed \<Longrightarrow>
   cleanup self w =
     (Inr (), self, w\<lparr>invoked := invoked w @ [Popen_Shell (cleanup_cmd (config self) cid)]\<rparr>)"
  by (simp add: cleanup_set fst_subprocess_Popen_shell)

lemma cleanup_times_session: "fst (snd (cleanup_times n self w)) = self"
proof (induction n arbitrary: w)
  case 0
  show ?case by simp
next
  case (Suc n)
  have "fst (snd (cleanup_times n (fst (snd (cleanup self w))) (snd (snd (cleanup self w))))) = self"
    using Suc.IH[of "snd (snd (cleanup self w))"] by simp
  then show ?case by (simp add: split_beta)
qed

lemma cleanup_times_unset:
  "container_id self = None \<Longrightarrow> cleanup_times n self w = (replicate n (Inr ()), self, w)"
  by (induction n) (simp_all add: cleanup_unset  replicate_append_same)

lemma cleanup_times_launched:
  assumes "container_id self = Some cid"
    and "CHR 0x00 \<notin> set (cleanup_cmd (config self) cid)"
    and "\<forall>i<n. respond w (length (invoked w) + i) (Popen_Shell (cleanup_cmd (config self) cid))
                \<noteq> Launch_Failed"
  shows "cleanup_times n self w =
     (replicate n (Inr ()), self,
      w\<lparr>invoked := invoked w @ replicate n (Popen_Shell (cleanup_cmd (config self) cid))\<rparr>)"
  using assms(3)
proof (induction n arbitrary: w)
  case 0
  show ?case by simp
next
  case (Suc n)
  let ?call = "Popen_Shell (cleanup_cmd (config self) cid)"
  let ?w1 = "w\<lparr>invoked := invoked w @ [?call]\<rparr>"
  have first: "cleanup self w = (Inr (), self, ?w1)"
    using Suc.prems assms(1,2) by (intro cleanup_launched) auto
  have "\<forall>i<n. respond ?w1 (length (invoked ?w1) + i) ?call \<noteq> Launch_Failed"
  proof (intro allI impI)
    fix i assume "i < n"
    then have "respond w (length (invoked w) + Suc i) ?call \<noteq> Launch_Failed"
      using Suc.prems by auto
    then show "respond ?w1 (length (invoked ?w1) + i) ?call \<noteq> Launch_Failed" by simp
  qed
  then have "cleanup_times n self ?w1 =
     (replicate n (Inr ()), self, ?w1\<lparr>invoked := invoked ?w1 @ replicate n ?call\<rparr>)"
    by (rule Suc.IH)
  with first show ?case by simp
qed

lemma forwarded_items_Nil: "forwarded_items getenv [] = []"
  by (simp add: forwarded_items_def)

lemma forwarded_items_Cons:
  "forwarded_items getenv (key # keys) =
     (case getenv key of None \<Rightarrow> [] | Some v \<Rightarrow> [(key, v)]) @ forwarded_items getenv keys"
  by (simp add: forwarded_items_def List.map_filter_simps split: option.splits)

lemma forwarded_items_append:
  "forwarded_items getenv (xs @ ys) = forwarded_items getenv xs @ forwarded_items getenv ys"
  by (simp add: forwarded_items_def List.map_filter_def)

lemma env_options_append: "env_options (xs @ ys) = env_options xs @ env_options ys"
  by (simp add: env_options_def)

lemma forwarded_items_keys:
  "map fst (forwarded_items getenv keys) = filter (\<lambda>key. getenv key \<noteq> None) keys"
  by (induction keys) (auto simp: forwarded_items_Nil forwarded_items_Cons split: option.splits)

lemma forwarded_items_values:
  "(key, v) \<in> set (forwarded_items getenv keys) \<longleftrightarrow> key \<in> set keys \<and> getenv key = Some v"
  by (induction keys) (auto simp: forwarded_items_Nil forwarded_items_Cons split: option.splits)

lemma replicate_twice: "replicate 2 x = [x, x]"
  by (simp add: numeral_2_eq_2)

lemma timeout_or_zero: "timeout_or (Some 0) dflt = timeout_or None dflt"
  by (simp add: timeout_or_def)

lemma timeout_or_default: "timeout_or (Some dflt) dflt = timeout_or None dflt"
  by (simp add: timeout_or_def)

lemma cwd_or_default: "cwd_or dflt dflt = cwd_or [] dflt"
  by (simp add: cwd_or_def)

section \<open>The claims\<close>

lemmas example_defs = example_config_def example_session_def example_world_def

subsection \<open>C1: the dictionary returned by execute\<close>

text \<open>
  C1, as stated, names the second key of the returned dictionary \<^verbatim>\<open>exit_code\<close>. The
  code returns the keys \<^verbatim>\<open>output\<close> and \<^verbatim>\<open>returncode\<close>: for the command \<^verbatim>\<open>exit 7\<close>,
  whose process exits with code 7 and no output, the result is
  \<^verbatim>\<open>{"output": "", "returncode": 7}\<close> and not \<^verbatim>\<open>{"output": "", "exit_code": 7}\<close>.
\<close>

theorem execute_exit_code_key_counterexample:
  "fst (execute ''exit 7'' '''' None (example_session (Some ''c0ffee''))
          (example_world (\<lambda>n call. Exited 7 '''' '''')))
     = Inr [(''output'', PyStr ''''), (''returncode'', PyInt 7)]
   \<and> fst (execute ''exit 7'' '''' None (example_session (Some ''c0ffee''))
          (example_world (\<lambda>n call. Exited 7 '''' '''')))
     \<noteq> Inr [(''output'', PyStr ''''), (''exit_code'', PyInt 7)]"
  by (simp add: execute_def subprocess_run_def Let_def example_defs)

text \<open>
  C1, amended: on a session whose identifier is set (and not empty), whenever the
  child process of \<^verbatim>\<open>execute\<close> exits, with whatever return code \<open>rc\<close> and captured
  text \<open>out\<close> (stderr sent to the stdout pipe), the call returns the dictionary with
  exactly the items \<^verbatim>\<open>output\<close> = \<open>out\<close> and \<^verbatim>\<open>returncode\<close> = \<open>rc\<close>: a non-zero return code
  is reported there and not raised. Every call that returns, returns a dictionary
  of exactly these two keys, a string under the first and an integer under the
  second.
\<close>

theorem execute_returns_output_and_returncode:
  "(container_id self = Some cid \<and> cid \<noteq> [] \<and>
    respond w (length (invoked w))
      (Run (exec_cmd (config self) (environ w) cid (cwd_or cwd_arg (cwd (config self))) command)
           (timeout_or timeout_arg (timeout (config self))) False Stderr_To_Stdout)
      = Exited rc out err
    \<longrightarrow> fst (execute command cwd_arg timeout_arg self w)
          = Inr [(''output'', PyStr out), (''returncode'', PyInt rc)])
   \<and> (fst (execute command cwd_arg timeout_arg self w) = Inr d
    \<longrightarrow> (\<exists>rc' out'. d = [(''output'', PyStr out'), (''returncode'', PyInt rc')]))"
  using execute_Exited[of self cid w cwd_arg command timeout_arg rc out err]
        execute_Inr[of command cwd_arg timeout_arg self w d]
  by blast

theorem execute_returns_output_and_returncode_witness:
  "fst (execute ''echo x'' ''/srv'' (Some 5) (example_session (Some ''c0ffee''))
          (example_world (\<lambda>n call. Exited 3 ''x'' '''')))
     = Inr [(''output'', PyStr ''x''), (''returncode'', PyInt 3)]"
  using execute_returns_output_and_returncode
          [of "example_session (Some ''c0ffee'')" "''c0ffee''"
              "example_world (\<lambda>n call. Exited 3 ''x'' '''')" "''/srv''" "''echo x''" "Some 5"
              3 "''x''" "''''"]
  by (simp add: example_defs)

subsection \<open>C3: execute before start or attach\<close>

text \<open>
  C3: on a session whose container identifier is unset, \<^verbatim>\<open>execute\<close> fails with the
  assertion error "Container not started", and the session and the world are what
  they were: no process has been invoked.
\<close>

theorem execute_unset_fails:
  "container_id self = None \<Longrightarrow>
   execute command cwd_arg timeout_arg self w =
     (Inl (AssertionError ''Container not started''), self, w)"
  by (simp add: execute_def)

theorem execute_unset_fails_witness:
  "execute ''ls'' '''' None (example_session None) (example_world (\<lambda>n call. Exited 0 '''' ''''))
     = (Inl (AssertionError ''Container not started''), example_session None,
        example_world (\<lambda>n call. Exited 0 '''' ''''))
   \<and> invoked (snd (snd (execute ''ls'' '''' None (example_session None)
                           (example_world (\<lambda>n call. Exited 0 '''' ''''))))) = []"
  using execute_unset_fails[of "example_session None" "''ls''" "''''" None
                               "example_world (\<lambda>n call. Exited 0 '''' '''')"]
  by (simp add: example_defs)

subsection \<open>C2: failures of the runtime during start and attach\<close>

text \<open>
  C2, as stated, says that no failure of a runtime invocation during start or attach
  reaches the caller as the raw subprocess error. \<^verbatim>\<open>_start_container\<close> has no handler
  around its \<^verbatim>\<open>subprocess.run(..., check=True)\<close>: when the runtime exits with code 125,
  the caller gets the \<open>CalledProcessError\<close> itself.
\<close>
theorem start_failure_is_raw_counterexample:
  "fst (start_container (example_session None)
          (example_world (\<lambda>n call. Exited 125 '''' ''no such image'')))
     = Inl (CalledProcessError 125
              [''docker'', ''run'', ''-d'', ''--name'', ''minisweagent-01234567'', ''-w'', ''/tmp'',
               ''--rm'', ''alpine'', ''sleep'', ''2h'']
              '''' ''no such image'')"
  by (simp add: start_container_def start_cmd_def subprocess_run_def Let_def logger_def example_defs)

text \<open>
  C2, amended: a failure of the running-state probe of attach is raised as a
  \<open>RuntimeError\<close> whose message names the container identifier: after a non-zero exit
  the \<open>CalledProcessError\<close> is chained as its cause and the captured stderr goes to the
  error log (not into the message); after a timeout the message says so. A failure of
  the creation command of start is not wrapped: a non-zero exit reaches the caller as
  \<open>CalledProcessError\<close>, a timeout as \<open>TimeoutExpired\<close>.
\<close>
theorem start_and_attach_failures:
  "(respond w (length (invoked w))
      (Run [executable (config self), ''inspect'', ''-f'', ''{{.State.Running}}'', cid]
           10 True Capture_Output) = Exited rc out err \<and> rc \<noteq> 0
    \<longrightarrow> fst (attach_to_container cid self w)
          = Inl (RuntimeError
                   (''Container '' @ [CHR 0x27] @ cid @ [CHR 0x27] @ '' not found or docker error.'')
                   (Some (CalledProcessError rc
                            [executable (config self), ''inspect'', ''-f'', ''{{.State.Running}}'', cid]
                            out err)))
        \<and> logged (snd (snd (attach_to_container cid self w)))
          = logged w @ [(DEBUG, ''Checking status of container '' @ cid),
                        (ERROR, ''Failed to inspect container '' @ cid
                                @ ''. Does it exist? Error: '' @ err)])
   \<and> (respond w (length (invoked w))
      (Run [executable (config self), ''inspect'', ''-f'', ''{{.State.Running}}'', cid]
           10 True Capture_Output) = Timed_Out
    \<longrightarrow> fst (attach_to_container cid self w)
          = Inl (RuntimeError (''Timeout checking container '' @ cid @ ''.'') None))
   \<and> (respond w (length (invoked w))
      (Run (start_cmd (config self) (''minisweagent-'' @ take 8 (uuid_hex w)))
           (pull_timeout (config self)) True Capture_Output) = Exited rc out err \<and> rc \<noteq> 0
    \<longrightarrow> fst (start_container self w)
          = Inl (CalledProcessError rc
                   (start_cmd (config self) (''minisweagent-'' @ take 8 (uuid_hex w))) out err))
   \<and> (respond w (length (invoked w))
      (Run (start_cmd (config self) (''minisweagent-'' @ take 8 (uuid_hex w)))
           (pull_timeout (config self)) True Capture_Output) = Timed_Out
    \<longrightarrow> fst (start_container self w)
          = Inl (TimeoutExpired
                   (start_cmd (config self) (''minisweagent-'' @ take 8 (uuid_hex w)))
                   (pull_timeout (config self))))"
  using attach_not_found[of w self cid rc out err] attach_timed_out[of w self cid]
        start_container_Exited[of w self rc out err] start_container_Timed_Out[of w self]
  by simp

theorem start_and_attach_failures_witness:
  "fst (attach_to_container ''abc'' (example_session None)
          (example_world (\<lambda>n call. Exited 1 '''' ''No such object: abc'')))
     = Inl (RuntimeError ''Container 'abc' not found or docker error.''
              (Some (CalledProcessError 1
                       [''docker'', ''inspect'', ''-f'', ''{{.State.Running}}'', ''abc'']
                       '''' ''No such object: abc'')))
   \<and> logged (snd (snd (attach_to_container ''abc'' (example_session None)
          (example_world (\<lambda>n call. Exited 1 '''' ''No such object: abc'')))))
     = [(DEBUG, ''Checking status of container abc''),
        (ERROR, ''Failed to inspect container abc. Does it exist? Error: No such object: abc'')]
   \<and> fst (start_container (example_session None)
          (example_world (\<lambda>n call. Exited 1 '''' ''No such object: abc'')))
     = Inl (CalledProcessError 1
              [''docker'', ''run'', ''-d'', ''--name'', ''minisweagent-01234567'', ''-w'', ''/tmp'',
               ''--rm'', ''alpine'', ''sleep'', ''2h'']
              '''' ''No such object: abc'')"
  using start_and_attach_failures
          [of "example_world (\<lambda>n call. Exited 1 '''' ''No such object: abc'')"
              "example_session None" "''abc''" 1 "''''" "''No such object: abc''"]
  by (simp add: example_defs start_cmd_def)

subsection \<open>C4: a failed attach leaves the session as it was\<close>

text \<open>
  C4: when the running-state probe exits with a non-zero code (the container does not
  exist, or the runtime fails), attach raises the \<open>RuntimeError\<close> "not found or docker
  error"; when it exits with code 0 and the reported state, stripped, is not \<^verbatim>\<open>true\<close>,
  attach raises the \<open>RuntimeError\<close> "is not 'running'"; and whenever attach raises, the
  session after the call is the session before it, so an unset identifier stays
  unset.
\<close>
theorem attach_failure_is_atomic:
  "(respond w (length (invoked w))
      (Run [executable (config self), ''inspect'', ''-f'', ''{{.State.Running}}'', cid]
           10 True Capture_Output) = Exited rc out err \<and> rc \<noteq> 0
    \<longrightarrow> fst (attach_to_container cid self w)
          = Inl (RuntimeError
                   (''Container '' @ [CHR 0x27] @ cid @ [CHR 0x27] @ '' not found or docker error.'')
                   (Some (CalledProcessError rc
                            [executable (config self), ''inspect'', ''-f'', ''{{.State.Running}}'', cid]
                            out err))))
   \<and> (respond w (length (invoked w))
      (Run [executable (config self), ''inspect'', ''-f'', ''{{.State.Running}}'', cid]
           10 True Capture_Output) = Exited 0 out err \<and> strip out \<noteq> ''true''
    \<longrightarrow> fst (attach_to_container cid self w)
          = Inl (RuntimeError
                   (''Container '' @ cid @ '' is not 'running'. Please start it first.'') None))
   \<and> (fst (attach_to_container cid self w) = Inl e
    \<longrightarrow> fst (snd (attach_to_container cid self w)) = self)"
  using attach_not_found(1)[of w self cid rc out err] attach_not_running[of w self cid out err]
        attach_failure_session[of cid self w e]
  by simp

theorem attach_failure_is_atomic_witness:
  "fst (attach_to_container ''abc'' (example_session None)
          (example_world (\<lambda>n call. Exited 0 (''false'' @ [CHR 0x0A]) '''')))
     = Inl (RuntimeError ''Container abc is not 'running'. Please start it first.'' None)
   \<and> container_id (fst (snd (attach_to_container ''abc'' (example_session None)
          (example_world (\<lambda>n call. Exited 0 (''false'' @ [CHR 0x0A]) ''''))))) = None
   \<and> fst (attach_to_container ''abc'' (example_session None)
          (example_world (\<lambda>n call. Exited 1 '''' ''No such object: abc'')))
     = Inl (RuntimeError ''Container 'abc' not found or docker error.''
              (Some (CalledProcessError 1
                       [''docker'', ''inspect'', ''-f'', ''{{.State.Running}}'', ''abc'']
                       '''' ''No such object: abc'')))
   \<and> container_id (fst (snd (attach_to_container ''abc'' (example_session None)
          (example_world (\<lambda>n call. Exited 1 '''' ''No such object: abc''))))) = None"
  using attach_failure_is_atomic
          [of "example_world (\<lambda>n call. Exited 0 (''false'' @ [CHR 0x0A]) '''')"
              "example_session None" "''abc''" 0 "''false'' @ [CHR 0x0A]" "''''"
              "RuntimeError ''Container abc is not 'running'. Please start it first.'' None"]
        attach_failure_is_atomic
          [of "example_world (\<lambda>n call. Exited 1 '''' ''No such object: abc'')"
              "example_session None" "''abc''" 1 "''''" "''No such object: abc''"
              "RuntimeError ''Container 'abc' not found or docker error.''
                 (Some (CalledProcessError 1
                          [''docker'', ''inspect'', ''-f'', ''{{.State.Running}}'', ''abc'']
                          '''' ''No such object: abc''))"]
  by (simp add: example_defs strip_def isspace_def)

subsection \<open>C5: the environment injected by execute\<close>

text \<open>
  C5: on a session whose identifier is set, the command that \<^verbatim>\<open>execute\<close> runs is the
  executable, \<^verbatim>\<open>exec -w <cwd>\<close>, then one \<^verbatim>\<open>-e name=value\<close> per forwarded name that is
  set on the host, in the order of \<^verbatim>\<open>forward_env\<close> (the names that are not set are left
  out), then one \<^verbatim>\<open>-e name=value\<close> per item of \<^verbatim>\<open>env\<close>, then the identifier and
  \<^verbatim>\<open>bash -lc <command>\<close>. Read with the later entry winning, the entries give an
  explicitly configured name its configured value, whatever was forwarded under that
  name (the names of \<^verbatim>\<open>env\<close> being distinct, as the keys of a dictionary are, and
  free of \<^verbatim>\<open>=\<close>).
\<close>
theorem execute_injects_forwarded_then_explicit:
  "(container_id self = Some cid \<and> cid \<noteq> []
    \<longrightarrow> invoked (snd (snd (execute command cwd_arg timeout_arg self w)))
          = invoked w
            @ [Run ([executable (config self), ''exec'', ''-w'', cwd_or cwd_arg (cwd (config self))]
                    @ env_options (forwarded_items (environ w) (forward_env (config self)))
                    @ env_options (env (config self))
                    @ [cid, ''bash'', ''-lc'', command])
                   (timeout_or timeout_arg (timeout (config self))) False Stderr_To_Stdout])
   \<and> map fst (forwarded_items (environ w) (forward_env (config self)))
       = filter (\<lambda>key. environ w key \<noteq> None) (forward_env (config self))
   \<and> ((key, v) \<in> set (forwarded_items (environ w) (forward_env (config self)))
        \<longleftrightarrow> key \<in> set (forward_env (config self)) \<and> environ w key = Some v)
   \<and> (distinct (map fst (env (config self)))
       \<and> (\<forall>name \<in> fst ` set (env (config self)). CHR ''='' \<notin> set name)
       \<and> (k, x) \<in> set (env (config self))
    \<longrightarrow> container_env (map env_entry (forwarded_items (environ w) (forward_env (config self))
                                         @ env (config self))) k = Some x)"
  using execute_invoked[of self cid command cwd_arg timeout_arg w]
        container_env_override[of "env (config self)" k x
           "forwarded_items (environ w) (forward_env (config self))"]
  by (simp add: exec_cmd_eq forwarded_items_keys forwarded_items_values)

theorem execute_injects_forwarded_then_explicit_witness:
  "invoked (snd (snd (execute ''env'' '''' None (example_session (Some ''c0ffee''))
                        (example_world (\<lambda>n call. Exited 0 '''' '''')))))
     = [Run [''docker'', ''exec'', ''-w'', ''/tmp'', ''-e'', ''A=0'', ''-e'', ''B='', ''-e'', ''A=1'',
             ''c0ffee'', ''bash'', ''-lc'', ''env'']
            30 False Stderr_To_Stdout]
   \<and> container_env [''A=0'', ''B='', ''A=1''] ''A'' = Some ''1''"
  using execute_injects_forwarded_then_explicit
          [of "example_session (Some ''c0ffee'')" "''c0ffee''" "''env''" "''''" None
              "example_world (\<lambda>n call. Exited 0 '''' '''')" "''A''" "''0''" "''A''" "''1''"]
  by (simp add: example_defs forwarded_items_Cons forwarded_items_Nil env_options_def env_entry_def
                cwd_or_def timeout_or_def)

subsection \<open>C6: the creation command\<close>

text \<open>
  C6: start runs exactly one process: the executable with \<^verbatim>\<open>run -d --name\<close>, the
  generated name (\<^verbatim>\<open>minisweagent-\<close> and the first eight hex digits of a fresh UUID),
  \<^verbatim>\<open>-w\<close> and the configured working directory, the configured extra arguments, the
  image, \<^verbatim>\<open>sleep\<close> and the container timeout; it is run with \<^verbatim>\<open>check=True\<close>, with
  captured output and with the pull timeout as its timeout. When that process exits
  with code 0, start succeeds and the stripped standard output is the session's
  container identifier.
\<close>
theorem start_container_command:
  "invoked (snd (snd (start_container self w)))
     = invoked w
       @ [Run ([executable (config self), ''run'', ''-d'', ''--name'',
                ''minisweagent-'' @ take 8 (uuid_hex w), ''-w'', cwd (config self)]
               @ run_args (config self)
               @ [image_name (config self), ''sleep'', container_timeout (config self)])
              (pull_timeout (config self)) True Capture_Output]
   \<and> (respond w (length (invoked w))
         (Run ([executable (config self), ''run'', ''-d'', ''--name'',
                ''minisweagent-'' @ take 8 (uuid_hex w), ''-w'', cwd (config self)]
               @ run_args (config self)
               @ [image_name (config self), ''sleep'', container_timeout (config self)])
              (pull_timeout (config self)) True Capture_Output) = Exited 0 out err
      \<longrightarrow> fst (start_container self w) = Inr ()
        \<and> fst (snd (start_container self w)) = self\<lparr>container_id := Some (strip out)\<rparr>)"
  using start_container_invoked[of self w] start_container_Exited[of w self 0 out err]
  by (simp add: start_cmd_def)

theorem start_container_command_witness:
  "invoked (snd (snd (start_container (example_session None)
                        (example_world (\<lambda>n call. Exited 0 ('' 4f5e '' @ [CHR 0x0A]) '''')))))
     = [Run [''docker'', ''run'', ''-d'', ''--name'', ''minisweagent-01234567'', ''-w'', ''/tmp'',
             ''--rm'', ''alpine'', ''sleep'', ''2h'']
            120 True Capture_Output]
   \<and> fst (start_container (example_session None)
            (example_world (\<lambda>n call. Exited 0 ('' 4f5e '' @ [CHR 0x0A]) ''''))) = Inr ()
   \<and> container_id (fst (snd (start_container (example_session None)
            (example_world (\<lambda>n call. Exited 0 ('' 4f5e '' @ [CHR 0x0A]) ''''))))) = Some ''4f5e''"
  using start_container_command
          [of "example_session None" "example_world (\<lambda>n call. Exited 0 ('' 4f5e '' @ [CHR 0x0A]) '''')"
              "'' 4f5e '' @ [CHR 0x0A]" "''''"]
  by (simp add: example_defs strip_def isspace_def)

subsection \<open>C7: the identifier is never cleared\<close>

text \<open>
  C7: a session whose identifier is set keeps an identifier through every run of
  operations (start, attach, execute, cleanup, in any order and with any outcome).
  \<^verbatim>\<open>execute\<close> and \<^verbatim>\<open>cleanup\<close> return the session they were given. In particular, when
  the child process of \<^verbatim>\<open>execute\<close> runs into its timeout, the call raises
  \<open>TimeoutExpired\<close>, and a following \<^verbatim>\<open>execute\<close> on the session and world it leaves does
  not fail the "Container not started" assertion.
\<close>
theorem container_id_never_cleared:
  "(container_id self \<noteq> None \<longrightarrow> container_id (fst (perform_all ops (self, w))) \<noteq> None)
   \<and> fst (snd (execute command cwd_arg timeout_arg self w)) = self
   \<and> fst (snd (cleanup self w)) = self
   \<and> (container_id self = Some cid \<and> cid \<noteq> [] \<and>
      respond w (length (invoked w))
        (Run (exec_cmd (config self) (environ w) cid (cwd_or cwd_arg (cwd (config self))) command)
             (timeout_or timeout_arg (timeout (config self))) False Stderr_To_Stdout) = Timed_Out
      \<longrightarrow> fst (execute command cwd_arg timeout_arg self w)
            = Inl (TimeoutExpired
                     (exec_cmd (config self) (environ w) cid (cwd_or cwd_arg (cwd (config self))) command)
                     (timeout_or timeout_arg (timeout (config self))))
        \<and> fst (execute command2 cwd_arg2 timeout_arg2
                 (fst (snd (execute command cwd_arg timeout_arg self w)))
                 (snd (snd (execute command cwd_arg timeout_arg self w))))
            \<noteq> Inl (AssertionError ''Container not started''))"
  using perform_all_keeps_set[of "(self, w)" ops]
        execute_Timed_Out[of self cid w cwd_arg command timeout_arg]
        execute_passes_precondition[of self cid command2 cwd_arg2 timeout_arg2
           "snd (snd (execute command cwd_arg timeout_arg self w))" "''Container not started''"]
  by simp

theorem container_id_never_cleared_witness:
  "container_id (fst (perform_all
       [Execute ''sleep 99'' '''' (Some 1), Cleanup, Execute ''ls'' '''' None, Start_Container,
        Attach_To_Container ''abc'', Cleanup]
       (example_session (Some ''c0ffee''), example_world (\<lambda>n call. Timed_Out)))) \<noteq> None
   \<and> fst (execute ''sleep 99'' '''' (Some 1) (example_session (Some ''c0ffee''))
            (example_world (\<lambda>n call. Timed_Out)))
      = Inl (TimeoutExpired
               [''docker'', ''exec'', ''-w'', ''/tmp'', ''-e'', ''A=0'', ''-e'', ''B='', ''-e'', ''A=1'',
                ''c0ffee'', ''bash'', ''-lc'', ''sleep 99''] 1)
   \<and> container_id (fst (snd (execute ''sleep 99'' '''' (Some 1) (example_session (Some ''c0ffee''))
            (example_world (\<lambda>n call. Timed_Out))))) = Some ''c0ffee''"
  using container_id_never_cleared
          [of "example_session (Some ''c0ffee'')"
              "[Execute ''sleep 99'' '''' (Some 1), Cleanup, Execute ''ls'' '''' None, Start_Container,
                Attach_To_Container ''abc'', Cleanup]"
              "example_world (\<lambda>n call. Timed_Out)" "''sleep 99''" "''''" "Some 1" "''c0ffee''"
              "''ls''" "''''" None]
  by (simp add: example_defs exec_cmd_eq forwarded_items_Cons forwarded_items_Nil env_options_def
                env_entry_def cwd_or_def timeout_or_def)

subsection \<open>C8: cleanup can be called any number of times\<close>

text \<open>
  C8, as stated, says that \<^verbatim>\<open>cleanup\<close> never raises to the caller. The call of
  \<^verbatim>\<open>subprocess.Popen\<close> on line 169 has no handler around it: when the shell cannot be
  launched, the \<open>OSError\<close> reaches the caller of \<^verbatim>\<open>cleanup\<close>, and when the identifier
  holds a NUL character, the \<open>ValueError\<close> does.
\<close>

theorem cleanup_raises_counterexample:
  "fst (cleanup (example_session (Some ''c0ffee'')) (example_world (\<lambda>n call. Launch_Failed)))
     = Inl OSError
   \<and> fst (cleanup (example_session (Some [CHR ''c'', CHR 0x00]))
            (example_world (\<lambda>n call. Exited 0 '''' '''')))
     = Inl ValueError"
  by (simp add: cleanup_def subprocess_Popen_shell_def cleanup_cmd_def Let_def example_defs)

text \<open>
  C8, amended: \<^verbatim>\<open>cleanup\<close> always leaves the session as it was, over any number of
  calls. With the identifier unset, \<open>n\<close> calls in a row all return normally and leave
  the world as it was: nothing is launched. With the identifier set, each call hands
  the shell pipeline \<^verbatim>\<open>(timeout 60 <exe> stop <id> || <exe> rm -f <id>) >/dev/null 2>&1 &\<close>
  to \<^verbatim>\<open>Popen\<close> and does nothing else; it returns normally exactly when the shell is
  launched, whatever the pipeline then does (its outcome is not waited for and not
  read), so \<open>n\<close> calls in a row whose launches all succeed all return normally. A
  failure of the launch itself is not caught: \<open>OSError\<close> when the shell cannot be
  launched, \<open>ValueError\<close> when the command line holds a NUL character.
\<close>

theorem cleanup_returns_when_launched:
  "fst (snd (cleanup_times n self w)) = self
   \<and> (container_id self = None \<longrightarrow> cleanup_times n self w = (replicate n (Inr ()), self, w))
   \<and> (container_id self = Some cid \<and> CHR 0x00 \<notin> set (cleanup_cmd (config self) cid)
       \<and> (\<forall>i<n. respond w (length (invoked w) + i) (Popen_Shell (cleanup_cmd (config self) cid))
                   \<noteq> Launch_Failed)
      \<longrightarrow> cleanup_times n self w
            = (replicate n (Inr ()), self,
               w\<lparr>invoked := invoked w
                     @ replicate n (Popen_Shell (cleanup_cmd (config self) cid))\<rparr>))
   \<and> (container_id self = Some cid
      \<longrightarrow> cleanup self w
            = (if CHR 0x00 \<in> set (cleanup_cmd (config self) cid) then Inl ValueError
               else if respond w (length (invoked w)) (Popen_Shell (cleanup_cmd (config self) cid))
                       = Launch_Failed
               then Inl OSError
               else Inr (),
               self,
               w\<lparr>invoked := invoked w @ [Popen_Shell (cleanup_cmd (config self) cid)]\<rparr>))
   \<and> cleanup_cmd (config self) cid
       = ''(timeout 60 '' @ executable (config self) @ '' stop '' @ cid @ '' || ''
         @ executable (config self) @ '' rm -f '' @ cid @ '') >/dev/null 2>&1 &''"
  using cleanup_times_session[of n self w] cleanup_times_unset[of self n w]
        cleanup_times_launched[of self cid n w] cleanup_set[of self cid w]
        fst_subprocess_Popen_shell[of "cleanup_cmd (config self) cid" w]
  by (simp add: cleanup_cmd_def)

theorem cleanup_returns_when_launched_witness:
  "cleanup_times 2 (example_session None) (example_world (\<lambda>n call. Timed_Out))
     = ([Inr (), Inr ()], example_session None, example_world (\<lambda>n call. Timed_Out))
   \<and> fst (cleanup_times 2 (example_session (Some ''c0ffee''))
            (example_world (\<lambda>n call. Exited 1 '''' '''')))
     = [Inr (), Inr ()]
   \<and> invoked (snd (snd (cleanup_times 2 (example_session (Some ''c0ffee''))
                           (example_world (\<lambda>n call. Exited 1 '''' '''')))))
     = [Popen_Shell ''(timeout 60 docker stop c0ffee || docker rm -f c0ffee) >/dev/null 2>&1 &'',
        Popen_Shell ''(timeout 60 docker stop c0ffee || docker rm -f c0ffee) >/dev/null 2>&1 &'']
   \<and> fst (cleanup (example_session (Some ''c0ffee'')) (example_world (\<lambda>n call. Timed_Out)))
     = Inr ()"
  using cleanup_returns_when_launched
          [of 2 "example_session None" "example_world (\<lambda>n call. Timed_Out)" "''c0ffee''"]
        cleanup_returns_when_launched
          [of 2 "example_session (Some ''c0ffee'')" "example_world (\<lambda>n call. Exited 1 '''' '''')"
              "''c0ffee''"]
        cleanup_returns_when_launched
          [of 2 "example_session (Some ''c0ffee'')" "example_world (\<lambda>n call. Timed_Out)"
              "''c0ffee''"]
  by (simp add: example_defs cleanup_cmd_def replicate_twice)

subsection \<open>C9: falsy arguments of execute fall back to the configuration\<close>

text \<open>
  C9: in every call of \<^verbatim>\<open>execute\<close> the two optional arguments are defaulted by
  truthiness. Whatever the other argument is, the empty string as \<^verbatim>\<open>cwd\<close> does what
  the configured working directory as \<^verbatim>\<open>cwd\<close> does, and 0 as \<^verbatim>\<open>timeout\<close> does what
  the call without a timeout (\<^verbatim>\<open>None\<close>) does, which is what the configured timeout as
  \<^verbatim>\<open>timeout\<close> does. On a session whose identifier is set, the process is run in the
  directory given when it is not the empty string and in the configured one when it
  is, with the timeout given when it is neither \<^verbatim>\<open>None\<close> nor 0 and with the
  configured one when it is.
\<close>

theorem execute_falsy_arguments_default:
  "execute command '''' timeout_arg self w
     = execute command (cwd (config self)) timeout_arg self w
   \<and> execute command cwd_arg (Some 0) self w = execute command cwd_arg None self w
   \<and> execute command cwd_arg None self w
     = execute command cwd_arg (Some (timeout (config self))) self w
   \<and> (container_id self = Some cid \<and> cid \<noteq> []
      \<longrightarrow> invoked (snd (snd (execute command cwd_arg timeout_arg self w)))
            = invoked w
              @ [Run (exec_cmd (config self) (environ w) cid
                        (if cwd_arg = '''' then cwd (config self) else cwd_arg) command)
                     (case timeout_arg of
                        None \<Rightarrow> timeout (config self)
                      | Some t \<Rightarrow> if t = 0 then timeout (config self) else t)
                     False Stderr_To_Stdout])"
proof -
  have "execute command '''' timeout_arg self w
          = execute command (cwd (config self)) timeout_arg self w"
    by (simp only: execute_def cwd_or_default)
  moreover have "execute command cwd_arg (Some 0) self w = execute command cwd_arg None self w"
    by (simp only: execute_def timeout_or_zero)
  moreover have "execute command cwd_arg None self w
          = execute command cwd_arg (Some (timeout (config self))) self w"
    by (simp only: execute_def timeout_or_default)
  moreover have "container_id self = Some cid \<and> cid \<noteq> []
      \<longrightarrow> invoked (snd (snd (execute command cwd_arg timeout_arg self w)))
            = invoked w
              @ [Run (exec_cmd (config self) (environ w) cid
                        (if cwd_arg = '''' then cwd (config self) else cwd_arg) command)
                     (case timeout_arg of
                        None \<Rightarrow> timeout (config self)
                      | Some t \<Rightarrow> if t = 0 then timeout (config self) else t)
                     False Stderr_To_Stdout]"
    using execute_invoked[of self cid command cwd_arg timeout_arg w]
    by (auto simp: cwd_or_def timeout_or_def split: option.splits)
  ultimately show ?thesis by blast
qed

theorem execute_falsy_arguments_default_witness:
  "invoked (snd (snd (execute ''pwd'' '''' (Some 0) (example_session (Some ''c0ffee''))
                        (example_world (\<lambda>n call. Exited 0 '''' '''')))))
     = [Run [''docker'', ''exec'', ''-w'', ''/tmp'', ''-e'', ''A=0'', ''-e'', ''B='', ''-e'', ''A=1'',
             ''c0ffee'', ''bash'', ''-lc'', ''pwd'']
            30 False Stderr_To_Stdout]
   \<and> invoked (snd (snd (execute ''pwd'' ''/srv'' (Some 0) (example_session (Some ''c0ffee''))
                        (example_world (\<lambda>n call. Exited 0 '''' '''')))))
     = [Run [''docker'', ''exec'', ''-w'', ''/srv'', ''-e'', ''A=0'', ''-e'', ''B='', ''-e'', ''A=1'',
             ''c0ffee'', ''bash'', ''-lc'', ''pwd'']
            30 False Stderr_To_Stdout]
   \<and> invoked (snd (snd (execute ''pwd'' '''' (Some 5) (example_session (Some ''c0ffee''))
                        (example_world (\<lambda>n call. Exited 0 '''' '''')))))
     = [Run [''docker'', ''exec'', ''-w'', ''/tmp'', ''-e'', ''A=0'', ''-e'', ''B='', ''-e'', ''A=1'',
             ''c0ffee'', ''bash'', ''-lc'', ''pwd'']
            5 False Stderr_To_Stdout]"
  using execute_falsy_arguments_default
          [of "''pwd''" "Some 0" "example_session (Some ''c0ffee'')"
              "example_world (\<lambda>n call. Exited 0 '''' '''')" "''''" "''c0ffee''", THEN conjunct2,
           THEN conjunct2, THEN conjunct2]
        execute_falsy_arguments_default
          [of "''pwd''" "Some 0" "example_session (Some ''c0ffee'')"
              "example_world (\<lambda>n call. Exited 0 '''' '''')" "''/srv''" "''c0ffee''", THEN conjunct2,
           THEN conjunct2, THEN conjunct2]
        execute_falsy_arguments_default
          [of "''pwd''" "Some 5" "example_session (Some ''c0ffee'')"
              "example_world (\<lambda>n call. Exited 0 '''' '''')" "''''" "''c0ffee''", THEN conjunct2,
           THEN conjunct2, THEN conjunct2]
  by (simp add: example_defs exec_cmd_eq forwarded_items_Cons forwarded_items_Nil env_options_def
                env_entry_def)

subsection \<open>C10: a forwarded variable with an empty value\<close>

text \<open>
  C10: for a name \<open>key\<close> of \<^verbatim>\<open>forward_env\<close>, standing after the names \<open>before\<close> and
  ahead of the names \<open>after\<close>: when the host environment has \<open>key\<close> with the empty string
  as its value, the command of \<^verbatim>\<open>execute\<close> carries \<^verbatim>\<open>-e key=\<close> at the place of \<open>key\<close>
  among the forwarded entries; when the host environment does not have \<open>key\<close>, the
  command carries nothing at that place.
\<close>
theorem execute_forwards_empty_value:
  "container_id self = Some cid \<and> cid \<noteq> [] \<and> forward_env (config self) = before @ key # after
   \<longrightarrow> (environ w key = Some ''''
        \<longrightarrow> invoked (snd (snd (execute command cwd_arg timeout_arg self w)))
              = invoked w
                @ [Run ([executable (config self), ''exec'', ''-w'', cwd_or cwd_arg (cwd (config self))]
                        @ env_options (forwarded_items (environ w) before)
                        @ [''-e'', key @ ''='']
                        @ env_options (forwarded_items (environ w) after)
                        @ env_options (env (config self))
                        @ [cid, ''bash'', ''-lc'', command])
                       (timeout_or timeout_arg (timeout (config self))) False Stderr_To_Stdout])
     \<and> (environ w key = None
        \<longrightarrow> invoked (snd (snd (execute command cwd_arg timeout_arg self w)))
              = invoked w
                @ [Run ([executable (config self), ''exec'', ''-w'', cwd_or cwd_arg (cwd (config self))]
                        @ env_options (forwarded_items (environ w) before)
                        @ env_options (forwarded_items (environ w) after)
                        @ env_options (env (config self))
                        @ [cid, ''bash'', ''-lc'', command])
                       (timeout_or timeout_arg (timeout (config self))) False Stderr_To_Stdout])"
  using execute_invoked[of self cid command cwd_arg timeout_arg w]
  by (simp add: exec_cmd_eq forwarded_items_append forwarded_items_Cons env_options_append
                env_options_def env_entry_def)

theorem execute_forwards_empty_value_witness:
  "environ (example_world (\<lambda>n call. Exited 0 '''' '''')) ''B'' = Some ''''
   \<and> invoked (snd (snd (execute ''env'' '''' None (example_session (Some ''c0ffee''))
                        (example_world (\<lambda>n call. Exited 0 '''' '''')))))
     = [Run [''docker'', ''exec'', ''-w'', ''/tmp'', ''-e'', ''A=0'', ''-e'', ''B='', ''-e'', ''A=1'',
             ''c0ffee'', ''bash'', ''-lc'', ''env'']
            30 False Stderr_To_Stdout]"
  using execute_forwards_empty_value
          [of "example_session (Some ''c0ffee'')" "''c0ffee''" "[''A'']" "''B''" "[''C'']"
              "example_world (\<lambda>n call. Exited 0 '''' '''')" "''env''" "''''" None]
  by (simp add: example_defs forwarded_items_Cons forwarded_items_Nil env_options_def env_entry_def
                cwd_or_def timeout_or_def)

end
